theory Spec2Isabelle
  imports Main
begin

section \<open>The grouping-records backfill task\<close>

text \<open>
  This theory embeds \<^verbatim>\<open>backfill_seer_grouping_records_for_project\<close> and
  \<^verbatim>\<open>call_next_backfill\<close> of
  \<^verbatim>\<open>sentry/tasks/embeddings_grouping/backfill_seer_grouping_records_for_project.py\<close>.

  One invocation of the task is a function from its arguments and its collaborators to the
  sequence of effects it performs (log lines, collaborator calls with what they returned,
  captured exceptions, enqueued tasks) and the way it ends (it returns, or an exception
  leaves it).

  The collaborators imported from \<^verbatim>\<open>sentry.tasks.embeddings_grouping.utils\<close>, the options
  store, the settings and the killswitch predicate are parameters of the model, gathered in
  the record \<open>env\<close>: each is the function from the arguments of the call to the value the
  call returns. A collaborator of which the task uses no return value
  (\<^verbatim>\<open>delete_seer_grouping_records\<close>, \<^verbatim>\<open>update_groups\<close>) is an effect only. The only
  collaborator whose exceptions the task handles is \<^verbatim>\<open>initialize_backfill\<close>; it returns
  an exception or a value, and an exception the task does not handle leaves the task. The \<^verbatim>\<open>extra\<close> dictionaries of the log calls are left out.
\<close>

subsection \<open>Data\<close>

text \<open>The argument \<^verbatim>\<open>cohort: str | list[int] | None\<close>; \<^verbatim>\<open>None\<close> is \<open>None\<close> of the option type.\<close>

datatype cohort = CohortName string | CohortProjects "int list"

text \<open>Python's \<^verbatim>\<open>not cohort\<close>: \<^verbatim>\<open>None\<close>, the empty string and the empty list are falsy.\<close>

fun not_cohort :: "cohort option \<Rightarrow> bool" where
  "not_cohort None = True"
| "not_cohort (Some (CohortName name)) = (name = [])"
| "not_cohort (Some (CohortProjects ps)) = (ps = [])"

datatype exn = FeatureError | ProjectDoesNotExist | AssertionError | OtherException string

datatype outcome = Returned | Raised exn

text \<open>A \<^verbatim>\<open>Project\<close> row; the task reads \<^verbatim>\<open>project.id\<close> only.\<close>

record project =
  p_id :: int

text \<open>
  The response dictionary of the similarity service. The task reads it with
  \<^verbatim>\<open>.get("success")\<close> and \<^verbatim>\<open>.get("reason")\<close>, which give \<^verbatim>\<open>None\<close> for an absent key.
\<close>

record 'o seer_response =
  success :: "bool option"
  reason :: "string option"
  results :: "int \<rightharpoonup> 'o"

text \<open>Python's \<^verbatim>\<open>not seer_response.get("success")\<close>.\<close>

definition not_success :: "'o seer_response \<Rightarrow> bool" where
  "not_success r = (success r \<noteq> Some True)"

text \<open>
  The effects of an invocation, in order. A \<open>Call_\<close> event of a collaborator that returns a
  value the task uses carries the arguments and, last, the value returned.
  \<open>ApplyAsync\<close> carries the positional \<^verbatim>\<open>args\<close> list of
  \<^verbatim>\<open>backfill_seer_grouping_records_for_project.apply_async\<close>.
\<close>

datatype ('s, 'f, 'n, 'o) event =
    is_LogInfo: LogInfo string
  | is_Call_initialize_backfill:
      Call_initialize_backfill int "int option" "int option"
        "exn + (project \<times> int option \<times> int)"
  | is_Call_delete_seer_grouping_records:
      Call_delete_seer_grouping_records int
  | is_Call_get_current_batch_groups_from_postgres:
      Call_get_current_batch_groups_from_postgres project "int option" int bool
        "int list \<times> int option"
  | is_Call_get_data_from_snuba:
      Call_get_data_from_snuba project "int list" 's
  | is_Call_filter_snuba_results:
      Call_filter_snuba_results 's "int list" project "'f \<times> int list"
  | is_Call_get_events_from_nodestore:
      Call_get_events_from_nodestore project 'f "int list" "'n \<times> (int \<times> string) list"
  | is_Call_send_group_and_stacktrace_to_seer:
      Call_send_group_and_stacktrace_to_seer "int list" 'n int "'o seer_response"
  | is_Call_send_group_and_stacktrace_to_seer_multithreaded:
      Call_send_group_and_stacktrace_to_seer_multithreaded "int list" 'n int "'o seer_response"
  | is_Call_update_groups:
      Call_update_groups project "'o seer_response" "int list" "(int \<times> string) list"
  | is_CaptureException: CaptureException string
  | is_ApplyAsync: ApplyAsync int "int option" "cohort option" "int option" bool bool

text \<open>
  The collaborators. \<open>'s\<close> is the type of the snuba results, \<open>'f\<close> of the filtered snuba
  results, \<open>'n\<close> of the nodestore results and \<open>'o\<close> of a group's similarity outcome. The
  group-hashes dictionary is an association list from group id to hash; \<open>batch_end_id\<close>
  is an optional group id, as the parameter \<^verbatim>\<open>last_processed_group_id: int | None\<close> of
  \<^verbatim>\<open>call_next_backfill\<close> that receives it. The three options
  are \<^verbatim>\<open>seer.similarity-backfill-killswitch.enabled\<close>,
  \<^verbatim>\<open>embeddings-grouping.seer.backfill-batch-size\<close> and
  \<^verbatim>\<open>similarity.backfill_seer_threads\<close>.
\<close>

record ('s, 'f, 'n, 'o) env =
  option_killswitch_enabled :: bool
  option_backfill_batch_size :: int
  option_backfill_seer_threads :: int
  SIMILARITY_BACKFILL_COHORT_MAP :: "string \<rightharpoonup> int list"
  killswitch_enabled :: "int \<Rightarrow> bool"
  initialize_backfill ::
    "int \<Rightarrow> int option \<Rightarrow> int option \<Rightarrow> exn + (project \<times> int option \<times> int)"
  get_current_batch_groups_from_postgres ::
    "project \<Rightarrow> int option \<Rightarrow> int \<Rightarrow> bool \<Rightarrow> int list \<times> int option"
  get_data_from_snuba :: "project \<Rightarrow> int list \<Rightarrow> 's"
  filter_snuba_results :: "'s \<Rightarrow> int list \<Rightarrow> project \<Rightarrow> 'f \<times> int list"
  get_events_from_nodestore ::
    "project \<Rightarrow> 'f \<Rightarrow> int list \<Rightarrow> 'n \<times> (int \<times> string) list"
  get_project_for_batch :: "int \<Rightarrow> int list \<Rightarrow> int option \<times> int option"
  send_group_and_stacktrace_to_seer :: "int list \<Rightarrow> 'n \<Rightarrow> int \<Rightarrow> 'o seer_response"
  send_group_and_stacktrace_to_seer_multithreaded ::
    "int list \<Rightarrow> 'n \<Rightarrow> int \<Rightarrow> 'o seer_response"

subsection \<open>The continuation scheduler\<close>

text \<open>
  Lines 254 to 257: the project list of a cohort, which
  \<^verbatim>\<open>settings.SIMILARITY_BACKFILL_COHORT_MAP.get(cohort, [])\<close> looks up when the cohort is a
  name. These lines are not reached without a cohort.
\<close>

fun resolve_cohort_projects :: "('s, 'f, 'n, 'o) env \<Rightarrow> cohort option \<Rightarrow> int list" where
  "resolve_cohort_projects env (Some (CohortName name)) =
     (case SIMILARITY_BACKFILL_COHORT_MAP env name of None \<Rightarrow> [] | Some ps \<Rightarrow> ps)"
| "resolve_cohort_projects env (Some (CohortProjects ps)) = ps"
| "resolve_cohort_projects env None = []"

text \<open>\<^verbatim>\<open>call_next_backfill\<close>, lines 217 to 284. It raises nothing; its value is its effects.\<close>

definition call_next_backfill ::
  "('s, 'f, 'n, 'o) env \<Rightarrow> int option \<Rightarrow> int \<Rightarrow> int \<Rightarrow> cohort option \<Rightarrow> bool \<Rightarrow> bool
     \<Rightarrow> ('s, 'f, 'n, 'o) event list" where
  "call_next_backfill env last_processed_group_id project_id last_processed_project_index
     cohort only_delete enable_ingestion =
    (case last_processed_group_id of
       Some group_id \<Rightarrow>
         [LogInfo ''calling next backfill task'',
          ApplyAsync project_id (Some group_id) cohort (Some last_processed_project_index)
            only_delete enable_ingestion]
     | None \<Rightarrow>
         if not_cohort cohort then [LogInfo ''backfill finished, no cohort'']
         else
           let cohort_projects = resolve_cohort_projects env cohort;
               (batch_project_id, next_project_index) =
                 get_project_for_batch env last_processed_project_index cohort_projects
           in (case batch_project_id of
                 None \<Rightarrow> [LogInfo ''reached the end of the project list'']
               | Some next_project_id \<Rightarrow>
                   [ApplyAsync next_project_id None cohort next_project_index
                      only_delete enable_ingestion]))"

subsection \<open>The task\<close>

text \<open>
  Lines 170 to 181: the choice of the sender. The value is the event of the call made and
  the response it returned.
\<close>

definition send_to_seer ::
  "('s, 'f, 'n, 'o) env \<Rightarrow> int list \<Rightarrow> 'n \<Rightarrow> int
     \<Rightarrow> ('s, 'f, 'n, 'o) event \<times> 'o seer_response" where
  "send_to_seer env group_ids nodestore_results project_id =
    (if option_backfill_seer_threads env > 1
     then
       let seer_response = send_group_and_stacktrace_to_seer_multithreaded env group_ids
                             nodestore_results project_id
       in (Call_send_group_and_stacktrace_to_seer_multithreaded group_ids nodestore_results
             project_id seer_response,
           seer_response)
     else
       let seer_response = send_group_and_stacktrace_to_seer env group_ids nodestore_results
                             project_id
       in (Call_send_group_and_stacktrace_to_seer group_ids nodestore_results project_id
             seer_response,
           seer_response))"

text \<open>
  Lines 118 to 214: one batch of a project that exists, outside the delete-only mode.
  \<open>t0\<close> is what the invocation did before.
\<close>

definition backfill_batch ::
  "('s, 'f, 'n, 'o) env \<Rightarrow> ('s, 'f, 'n, 'o) event list \<Rightarrow> int \<Rightarrow> project \<Rightarrow> int option
     \<Rightarrow> int \<Rightarrow> cohort option \<Rightarrow> bool \<Rightarrow> ('s, 'f, 'n, 'o) event list \<times> outcome" where
  "backfill_batch env t0 current_project_id project last_processed_group_id
     last_processed_project_index cohort enable_ingestion =
    (let batch_size = option_backfill_batch_size env;
         (groups_to_backfill_with_no_embedding, batch_end_id) =
           get_current_batch_groups_from_postgres env project last_processed_group_id
             batch_size enable_ingestion;
         t1 = t0 @ [Call_get_current_batch_groups_from_postgres project
                      last_processed_group_id batch_size enable_ingestion
                      (groups_to_backfill_with_no_embedding, batch_end_id)];
         next_batch = call_next_backfill env batch_end_id current_project_id
                        last_processed_project_index cohort False enable_ingestion
     in if length groups_to_backfill_with_no_embedding = 0 then (t1 @ next_batch, Returned)
     else
       let snuba_results = get_data_from_snuba env project groups_to_backfill_with_no_embedding;
           (filtered_snuba_results, groups_to_backfill_with_no_embedding_has_snuba_row) =
             filter_snuba_results env snuba_results groups_to_backfill_with_no_embedding
               project;
           t2 = t1 @
             [Call_get_data_from_snuba project groups_to_backfill_with_no_embedding
                snuba_results,
              Call_filter_snuba_results snuba_results groups_to_backfill_with_no_embedding
                project
                (filtered_snuba_results, groups_to_backfill_with_no_embedding_has_snuba_row)]
       in if length groups_to_backfill_with_no_embedding_has_snuba_row = 0
          then (t2 @ next_batch, Returned)
       else
         let (nodestore_results, group_hashes_dict) =
               get_events_from_nodestore env project filtered_snuba_results
                 groups_to_backfill_with_no_embedding_has_snuba_row;
             t3 = t2 @
               [Call_get_events_from_nodestore project filtered_snuba_results
                  groups_to_backfill_with_no_embedding_has_snuba_row
                  (nodestore_results, group_hashes_dict)]
         in if group_hashes_dict = [] then (t3 @ next_batch, Returned)
         else
           let groups_to_backfill_with_no_embedding_has_snuba_row_and_nodestore_row =
                 [group_id \<leftarrow> groups_to_backfill_with_no_embedding_has_snuba_row.
                    group_id \<in> set (map fst group_hashes_dict)];
               (seer_call, seer_response) = send_to_seer env
                 groups_to_backfill_with_no_embedding_has_snuba_row_and_nodestore_row
                 nodestore_results (p_id project)
           in if not_success seer_response
              then (t3 @ [seer_call,
                          LogInfo ''backfill_seer_grouping_records.seer_failed'',
                          CaptureException ''Seer failed during backfill''],
                    Returned)
              else (t3 @ [seer_call,
                          Call_update_groups project seer_response
                            groups_to_backfill_with_no_embedding_has_snuba_row_and_nodestore_row
                            group_hashes_dict,
                          LogInfo ''about to call next backfill'']
                       @ next_batch,
                    Returned))"

text \<open>
  Lines 41 to 116, then \<open>backfill_batch\<close>. The arguments after \<open>env\<close> are the task's
  positional parameters, in order.
\<close>

definition backfill_seer_grouping_records_for_project ::
  "('s, 'f, 'n, 'o) env \<Rightarrow> int \<Rightarrow> int option \<Rightarrow> cohort option \<Rightarrow> int option \<Rightarrow> bool \<Rightarrow> bool
     \<Rightarrow> ('s, 'f, 'n, 'o) event list \<times> outcome" where
  "backfill_seer_grouping_records_for_project env current_project_id
     last_processed_group_id_input cohort last_processed_project_index_input only_delete
     enable_ingestion =
    (if option_killswitch_enabled env \<or> killswitch_enabled env current_project_id
     then ([LogInfo ''backfill_seer_grouping_records.killswitch_enabled''], Returned)
     else
       let init = initialize_backfill env current_project_id last_processed_group_id_input
                    last_processed_project_index_input;
           t0 = [LogInfo ''backfill_seer_grouping_records'',
                 Call_initialize_backfill current_project_id last_processed_group_id_input
                   last_processed_project_index_input init]
       in (case init of
             Inl FeatureError \<Rightarrow>
               (t0 @ [LogInfo ''backfill_seer_grouping_records.no_feature''], Returned)
           | Inl ProjectDoesNotExist \<Rightarrow>
               (case last_processed_project_index_input of
                  None \<Rightarrow>
                    (t0 @ [LogInfo ''backfill_seer_grouping_records.project_does_not_exist''],
                     Raised AssertionError)
                | Some project_index \<Rightarrow>
                    (t0 @ [LogInfo ''backfill_seer_grouping_records.project_does_not_exist'']
                        @ call_next_backfill env None current_project_id project_index cohort
                            only_delete enable_ingestion,
                     Returned))
           | Inl e \<Rightarrow> (t0, Raised e)
           | Inr (project, last_processed_group_id, last_processed_project_index) \<Rightarrow>
               if only_delete
               then (t0 @ [Call_delete_seer_grouping_records current_project_id,
                           LogInfo ''backfill_seer_grouping_records.deleted_all_records'']
                        @ call_next_backfill env None current_project_id
                            last_processed_project_index cohort only_delete enable_ingestion,
                     Returned)
               else backfill_batch env t0 current_project_id project last_processed_group_id
                      last_processed_project_index cohort enable_ingestion))"

subsection \<open>Observations on the effects of an invocation\<close>

text \<open>The response carried by the event of a call of either sender.\<close>

fun seer_response_of :: "('s, 'f, 'n, 'o) event \<Rightarrow> 'o seer_response option" where
  "seer_response_of (Call_send_group_and_stacktrace_to_seer gs ns p r) = Some r"
| "seer_response_of (Call_send_group_and_stacktrace_to_seer_multithreaded gs ns p r) = Some r"
| "seer_response_of _ = None"

text \<open>The calls of the similarity service, the write-backs and the enqueued tasks.\<close>

definition similarity_calls :: "('s, 'f, 'n, 'o) event list \<Rightarrow> ('s, 'f, 'n, 'o) event list" where
  "similarity_calls tr = filter (\<lambda>e. seer_response_of e \<noteq> None) tr"

definition write_backs :: "('s, 'f, 'n, 'o) event list \<Rightarrow> ('s, 'f, 'n, 'o) event list" where
  "write_backs tr = filter is_Call_update_groups tr"

definition enqueued :: "('s, 'f, 'n, 'o) event list \<Rightarrow> ('s, 'f, 'n, 'o) event list" where
  "enqueued tr = filter is_ApplyAsync tr"

text \<open>The deletions, batch selections and event fetches.\<close>

definition deletions :: "('s, 'f, 'n, 'o) event list \<Rightarrow> ('s, 'f, 'n, 'o) event list" where
  "deletions tr = filter is_Call_delete_seer_grouping_records tr"

definition batch_selections ::
  "('s, 'f, 'n, 'o) event list \<Rightarrow> ('s, 'f, 'n, 'o) event list" where
  "batch_selections tr = filter is_Call_get_current_batch_groups_from_postgres tr"

definition event_fetches :: "('s, 'f, 'n, 'o) event list \<Rightarrow> ('s, 'f, 'n, 'o) event list" where
  "event_fetches tr =
     filter (\<lambda>e. is_Call_get_data_from_snuba e \<or> is_Call_filter_snuba_results e
                 \<or> is_Call_get_events_from_nodestore e) tr"

subsection \<open>A helper the sources at hand do not contain\<close>

text \<open>
  Modelled from the spec: \<^verbatim>\<open>get_project_for_batch\<close> of
  \<^verbatim>\<open>sentry.tasks.embeddings_grouping.utils\<close> is missing. The continuation scheduler is to
  "advance \<^verbatim>\<open>last_processed_project_index\<close>, pick the next project id", and "if the cohort's
  project index runs past the end of the list" the cohort is exhausted. A position before
  the start of the list holds no project either.
\<close>

definition get_project_for_batch_spec :: "int \<Rightarrow> int list \<Rightarrow> int option \<times> int option" where
  "get_project_for_batch_spec last_processed_project_index cohort_projects =
    (let next_project_index = last_processed_project_index + 1
     in if next_project_index < 0 \<or> int (length cohort_projects) \<le> next_project_index
        then (None, None)
        else (Some (cohort_projects ! nat next_project_index), Some next_project_index))"

subsection \<open>A sample deployment\<close>

text \<open>
  A concrete set of collaborators on which the theorems below are exercised: no killswitch,
  a cohort \<open>cohort1\<close> of the projects 10 and 20, a batch of the groups 1, 2 and 3 of which
  1 and 2 have a snuba row and 2 has a nodestore entry, and a similarity service that
  succeeds.
\<close>

definition sample_response :: "string seer_response" where
  "sample_response = \<lparr>success = Some True, reason = None, results = [2 \<mapsto> ''new hash'']\<rparr>"

definition sample_env :: "(nat, nat, nat, string) env" where
  "sample_env =
    \<lparr>option_killswitch_enabled = False,
     option_backfill_batch_size = 3,
     option_backfill_seer_threads = 1,
     SIMILARITY_BACKFILL_COHORT_MAP = [''cohort1'' \<mapsto> [10, 20]],
     killswitch_enabled = (\<lambda>project_id. False),
     initialize_backfill =
       (\<lambda>project_id group_id project_index.
          Inr (\<lparr>p_id = project_id\<rparr>, group_id,
               case project_index of None \<Rightarrow> 0 | Some i \<Rightarrow> i)),
     get_current_batch_groups_from_postgres =
       (\<lambda>project group_id batch_size enable_ingestion. ([1, 2, 3], Some 3)),
     get_data_from_snuba = (\<lambda>project group_ids. 0),
     filter_snuba_results = (\<lambda>snuba_results group_ids project. (0, [1, 2])),
     get_events_from_nodestore = (\<lambda>project rows group_ids. (0, [(2, ''hash2'')])),
     get_project_for_batch = get_project_for_batch_spec,
     send_group_and_stacktrace_to_seer = (\<lambda>group_ids snapshots project_id. sample_response),
     send_group_and_stacktrace_to_seer_multithreaded =
       (\<lambda>group_ids snapshots project_id. sample_response)\<rparr>"

text \<open>The same deployment with the global killswitch option enabled.\<close>

definition killed_env :: "(nat, nat, nat, string) env" where
  "killed_env = sample_env\<lparr>option_killswitch_enabled := True\<rparr>"

text \<open>The same deployment after the project has been deleted.\<close>

definition deleted_project_env :: "(nat, nat, nat, string) env" where
  "deleted_project_env =
     sample_env\<lparr>initialize_backfill :=
       (\<lambda>project_id group_id project_index. Inl ProjectDoesNotExist)\<rparr>"

text \<open>The same deployment with a similarity service that times out.\<close>

definition timeout_response :: "string seer_response" where
  "timeout_response = \<lparr>success = Some False, reason = Some ''timeout'', results = Map.empty\<rparr>"

definition failing_seer_env :: "(nat, nat, nat, string) env" where
  "failing_seer_env =
     sample_env\<lparr>send_group_and_stacktrace_to_seer :=
       (\<lambda>group_ids snapshots project_id. timeout_response)\<rparr>"




subsection \<open>Facts about the model\<close>

lemma not_cohort_iff:
  "not_cohort cohort \<longleftrightarrow>
     cohort = None \<or> cohort = Some (CohortName '''') \<or> cohort = Some (CohortProjects [])"
  by (cases cohort rule: not_cohort.cases) simp_all

lemma get_project_for_batch_spec_past_end:
  "int (length cohort_projects) \<le> last_processed_project_index + 1 \<Longrightarrow>
   get_project_for_batch_spec last_processed_project_index cohort_projects = (None, None)"
  by (simp add: get_project_for_batch_spec_def)

lemma get_project_for_batch_spec_next:
  "0 \<le> last_processed_project_index + 1 \<Longrightarrow>
   last_processed_project_index + 1 < int (length cohort_projects) \<Longrightarrow>
   get_project_for_batch_spec last_processed_project_index cohort_projects
   = (Some (cohort_projects ! nat (last_processed_project_index + 1)),
      Some (last_processed_project_index + 1))"
  by (simp add: get_project_for_batch_spec_def Let_def)

lemma call_next_backfill_events:
  "e \<in> set (call_next_backfill env g p i c od ei) \<Longrightarrow> is_LogInfo e \<or> is_ApplyAsync e"
  by (auto simp add: call_next_backfill_def Let_def split: option.splits prod.splits if_splits)

lemma filter_call_next_backfill:
  assumes "\<And>e. is_LogInfo e \<or> is_ApplyAsync e \<Longrightarrow> \<not> P e"
  shows "filter P (call_next_backfill env g p i c od ei) = []"
  using assms call_next_backfill_events by (fastforce simp add: filter_empty_conv)

lemma call_next_backfill_observations [simp]:
  "similarity_calls (call_next_backfill env g p i c od ei) = []"
  "write_backs (call_next_backfill env g p i c od ei) = []"
  "deletions (call_next_backfill env g p i c od ei) = []"
  "batch_selections (call_next_backfill env g p i c od ei) = []"
  "event_fetches (call_next_backfill env g p i c od ei) = []"
  unfolding similarity_calls_def write_backs_def deletions_def batch_selections_def
    event_fetches_def
  by (rule filter_call_next_backfill; auto simp add: is_LogInfo_def is_ApplyAsync_def)+

lemma observations_append [simp]:
  "similarity_calls (xs @ ys) = similarity_calls xs @ similarity_calls ys"
  "write_backs (xs @ ys) = write_backs xs @ write_backs ys"
  "deletions (xs @ ys) = deletions xs @ deletions ys"
  "batch_selections (xs @ ys) = batch_selections xs @ batch_selections ys"
  "event_fetches (xs @ ys) = event_fetches xs @ event_fetches ys"
  "enqueued (xs @ ys) = enqueued xs @ enqueued ys"
  by (simp_all add: similarity_calls_def write_backs_def deletions_def batch_selections_def
        event_fetches_def enqueued_def)

lemma observations_Cons [simp]:
  "similarity_calls (e # xs) = (if seer_response_of e \<noteq> None then [e] else []) @ similarity_calls xs"
  "write_backs (e # xs) = (if is_Call_update_groups e then [e] else []) @ write_backs xs"
  "deletions (e # xs) = (if is_Call_delete_seer_grouping_records e then [e] else []) @ deletions xs"
  "batch_selections (e # xs) =
     (if is_Call_get_current_batch_groups_from_postgres e then [e] else []) @ batch_selections xs"
  "event_fetches (e # xs) =
     (if is_Call_get_data_from_snuba e \<or> is_Call_filter_snuba_results e
         \<or> is_Call_get_events_from_nodestore e then [e] else []) @ event_fetches xs"
  "enqueued (e # xs) = (if is_ApplyAsync e then [e] else []) @ enqueued xs"
  by (simp_all add: similarity_calls_def write_backs_def deletions_def batch_selections_def
        event_fetches_def enqueued_def)

lemma observations_Nil [simp]:
  "similarity_calls [] = []" "write_backs [] = []" "deletions [] = []"
  "batch_selections [] = []" "event_fetches [] = []" "enqueued [] = []"
  by (simp_all add: similarity_calls_def write_backs_def deletions_def batch_selections_def
        event_fetches_def enqueued_def)

lemma enqueued_call_next_backfill_exhausted:
  "enqueued (call_next_backfill env None p i c od ei) = [] \<or>
   (\<exists>next_project_id next_project_index.
      enqueued (call_next_backfill env None p i c od ei)
      = [ApplyAsync next_project_id None c next_project_index od ei])"
  by (auto simp add: call_next_backfill_def Let_def split: option.splits prod.splits)

lemma seer_response_of_send_to_seer [simp]:
  "seer_response_of (fst (send_to_seer env gs ns p)) = Some (snd (send_to_seer env gs ns p))"
  by (simp add: send_to_seer_def Let_def)

lemma call_next_backfill_no_seer_response:
  "e \<in> set (call_next_backfill env g p i c od ei) \<Longrightarrow> seer_response_of e = None"
  by (drule call_next_backfill_events) (auto simp add: is_LogInfo_def is_ApplyAsync_def)

lemma backfill_batch_no_groups:
  assumes "get_current_batch_groups_from_postgres env project g
             (option_backfill_batch_size env) ei = ([], batch_end_id)"
  shows "backfill_batch env t0 p project g i c ei
         = (t0 @ [Call_get_current_batch_groups_from_postgres project g
                    (option_backfill_batch_size env) ei ([], batch_end_id)]
               @ call_next_backfill env batch_end_id p i c False ei,
            Returned)"
  using assms by (simp add: backfill_batch_def Let_def)

lemma backfill_batch_no_snuba_rows:
  assumes "get_current_batch_groups_from_postgres env project g
             (option_backfill_batch_size env) ei = (groups, batch_end_id)"
    and "groups \<noteq> []"
    and "filter_snuba_results env (get_data_from_snuba env project groups) groups project
         = (f, [])"
  shows "backfill_batch env t0 p project g i c ei
         = (t0 @ [Call_get_current_batch_groups_from_postgres project g
                    (option_backfill_batch_size env) ei (groups, batch_end_id),
                  Call_get_data_from_snuba project groups
                    (get_data_from_snuba env project groups),
                  Call_filter_snuba_results (get_data_from_snuba env project groups) groups
                    project (f, [])]
               @ call_next_backfill env batch_end_id p i c False ei,
            Returned)"
  using assms by (simp add: backfill_batch_def Let_def)

lemma backfill_batch_no_nodestore_rows:
  assumes "get_current_batch_groups_from_postgres env project g
             (option_backfill_batch_size env) ei = (groups, batch_end_id)"
    and "groups \<noteq> []"
    and "filter_snuba_results env (get_data_from_snuba env project groups) groups project
         = (f, has_row)"
    and "has_row \<noteq> []"
    and "get_events_from_nodestore env project f has_row = (ns, [])"
  shows "backfill_batch env t0 p project g i c ei
         = (t0 @ [Call_get_current_batch_groups_from_postgres project g
                    (option_backfill_batch_size env) ei (groups, batch_end_id),
                  Call_get_data_from_snuba project groups
                    (get_data_from_snuba env project groups),
                  Call_filter_snuba_results (get_data_from_snuba env project groups) groups
                    project (f, has_row),
                  Call_get_events_from_nodestore project f has_row (ns, [])]
               @ call_next_backfill env batch_end_id p i c False ei,
            Returned)"
  using assms by (simp add: backfill_batch_def Let_def)

lemma backfill_batch_scored:
  assumes "get_current_batch_groups_from_postgres env project g
             (option_backfill_batch_size env) ei = (groups, batch_end_id)"
    and "groups \<noteq> []"
    and "filter_snuba_results env (get_data_from_snuba env project groups) groups project
         = (f, has_row)"
    and "has_row \<noteq> []"
    and "get_events_from_nodestore env project f has_row = (ns, d)"
    and "d \<noteq> []"
    and "send_to_seer env (filter (\<lambda>group_id. group_id \<in> set (map fst d)) has_row) ns
           (p_id project) = (seer_call, seer_response)"
  shows "backfill_batch env t0 p project g i c ei
         = (t0 @ [Call_get_current_batch_groups_from_postgres project g
                    (option_backfill_batch_size env) ei (groups, batch_end_id),
                  Call_get_data_from_snuba project groups
                    (get_data_from_snuba env project groups),
                  Call_filter_snuba_results (get_data_from_snuba env project groups) groups
                    project (f, has_row),
                  Call_get_events_from_nodestore project f has_row (ns, d),
                  seer_call]
               @ (if not_success seer_response
                  then [LogInfo ''backfill_seer_grouping_records.seer_failed'',
                        CaptureException ''Seer failed during backfill'']
                  else [Call_update_groups project seer_response
                          (filter (\<lambda>group_id. group_id \<in> set (map fst d)) has_row) d,
                        LogInfo ''about to call next backfill'']
                       @ call_next_backfill env batch_end_id p i c False ei),
            Returned)"
  using assms by (simp add: backfill_batch_def Let_def)

lemma backfill_batch_seer_failure:
  assumes "e \<in> set (fst (backfill_batch env t0 p project g i c ei))"
    and "seer_response_of e = Some r"
    and "not_success r"
    and "\<forall>x \<in> set t0. seer_response_of x = None"
  shows "\<exists>before. backfill_batch env t0 p project g i c ei
           = (t0 @ before @ [e, LogInfo ''backfill_seer_grouping_records.seer_failed'',
                             CaptureException ''Seer failed during backfill''],
              Returned)
           \<and> write_backs before = [] \<and> enqueued before = []"
proof -
  obtain groups batch_end_id where batch:
    "get_current_batch_groups_from_postgres env project g (option_backfill_batch_size env) ei
     = (groups, batch_end_id)"
    by (cases "get_current_batch_groups_from_postgres env project g
                 (option_backfill_batch_size env) ei")
  obtain f has_row where snuba:
    "filter_snuba_results env (get_data_from_snuba env project groups) groups project
     = (f, has_row)"
    by (cases "filter_snuba_results env (get_data_from_snuba env project groups) groups
                 project")
  obtain ns d where nodestore: "get_events_from_nodestore env project f has_row = (ns, d)"
    by (cases "get_events_from_nodestore env project f has_row")
  obtain seer_call seer_response where seer:
    "send_to_seer env (filter (\<lambda>group_id. group_id \<in> set (map fst d)) has_row) ns
       (p_id project) = (seer_call, seer_response)"
    by (cases "send_to_seer env (filter (\<lambda>group_id. group_id \<in> set (map fst d)) has_row) ns
                 (p_id project)")
  have resp: "seer_response_of seer_call = Some seer_response"
    using seer by (auto simp add: send_to_seer_def Let_def split: if_splits)
  have quiet: "seer_response_of x = None"
    if "x \<in> set (call_next_backfill env batch_end_id p i c False ei)" for x
    using that by (rule call_next_backfill_no_seer_response)
  show ?thesis
  proof (cases "groups = []")
    case True
    with assms(1,2,4) quiet batch show ?thesis
      by (auto simp add: backfill_batch_no_groups)
  next
    case groups: False
    show ?thesis
    proof (cases "has_row = []")
      case True
      with assms(1,2,4) quiet groups batch snuba show ?thesis
        by (auto simp add: backfill_batch_no_snuba_rows)
    next
      case has_row: False
      show ?thesis
      proof (cases "d = []")
        case True
        with assms(1,2,4) quiet groups has_row batch snuba nodestore show ?thesis
          by (auto simp add: backfill_batch_no_nodestore_rows)
      next
        case d: False
        note run = backfill_batch_scored [OF batch groups snuba has_row nodestore d seer]
        have e: "e = seer_call"
          using assms(1,2,4) quiet resp unfolding run
          by (auto split: if_splits)
        then have "not_success seer_response"
          using assms(2,3) resp by simp
        then show ?thesis
          unfolding run e by simp
      qed
    qed
  qed
qed

lemma task_runs_batch:
  assumes "\<not> (option_killswitch_enabled env \<or> killswitch_enabled env current_project_id)"
    and "initialize_backfill env current_project_id last_processed_group_id_input
           last_processed_project_index_input
         = Inr (project, last_processed_group_id, last_processed_project_index)"
  shows "backfill_seer_grouping_records_for_project env current_project_id
           last_processed_group_id_input cohort last_processed_project_index_input False
           enable_ingestion
         = backfill_batch env
             [LogInfo ''backfill_seer_grouping_records'',
              Call_initialize_backfill current_project_id last_processed_group_id_input
                last_processed_project_index_input
                (Inr (project, last_processed_group_id, last_processed_project_index))]
             current_project_id project last_processed_group_id last_processed_project_index
             cohort enable_ingestion"
  using assms by (simp add: backfill_seer_grouping_records_for_project_def)

lemma task_without_batch_calls_no_seer:
  assumes "option_killswitch_enabled env \<or> killswitch_enabled env current_project_id
           \<or> only_delete
           \<or> isl (initialize_backfill env current_project_id last_processed_group_id_input
                    last_processed_project_index_input)"
    and "e \<in> set (fst (backfill_seer_grouping_records_for_project env current_project_id
                 last_processed_group_id_input cohort last_processed_project_index_input
                 only_delete enable_ingestion))"
  shows "seer_response_of e = None"
  using assms
  by (auto simp add: backfill_seer_grouping_records_for_project_def Let_def
        dest: call_next_backfill_no_seer_response
        split: if_splits sum.splits exn.splits option.splits)


lemma no_group_with_hash_iff:
  assumes "set (map fst group_hashes_dict) \<subseteq> set has_snuba_row"
  shows "filter (\<lambda>group_id. group_id \<in> set (map fst group_hashes_dict)) has_snuba_row = []
         \<longleftrightarrow> group_hashes_dict = []"
proof
  assume none: "filter (\<lambda>group_id. group_id \<in> set (map fst group_hashes_dict)) has_snuba_row
                = []"
  show "group_hashes_dict = []"
  proof (cases group_hashes_dict)
    case Nil
    then show ?thesis .
  next
    case (Cons entry entries)
    then have "fst entry \<in> set has_snuba_row"
      using assms by auto
    with none Cons show ?thesis
      by (auto simp add: filter_empty_conv)
  qed
next
  assume "group_hashes_dict = []"
  then show "filter (\<lambda>group_id. group_id \<in> set (map fst group_hashes_dict)) has_snuba_row
             = []"
    by simp
qed

subsection \<open>Properties\<close>

subsubsection \<open>A failed similarity call\<close>

text \<open>
  C1. In every invocation in which a sender was called and its response has a falsy
  \<open>success\<close>, the call is followed by one log line and the captured exception
  \<open>Seer failed during backfill\<close>, and the invocation returns: \<open>update_groups\<close> is not
  called and nothing is enqueued, so no cursor past the failed batch is passed on.
\<close>

theorem seer_failure_stops:
  assumes "e \<in> set (fst run)"
    and "seer_response_of e = Some r"
    and "not_success r"
    and "run = backfill_seer_grouping_records_for_project env current_project_id
                 last_processed_group_id_input cohort last_processed_project_index_input
                 only_delete enable_ingestion"
  shows "snd run = Returned
       \<and> write_backs (fst run) = []
       \<and> enqueued (fst run) = []
       \<and> (\<exists>before. fst run = before @
             [e, LogInfo ''backfill_seer_grouping_records.seer_failed'',
              CaptureException ''Seer failed during backfill''])"
proof -
  let ?init = "initialize_backfill env current_project_id last_processed_group_id_input
                 last_processed_project_index_input"
  have gate: "\<not> (option_killswitch_enabled env \<or> killswitch_enabled env current_project_id)"
    and mode: "\<not> only_delete" and found: "\<not> isl ?init"
    using task_without_batch_calls_no_seer
            [of env current_project_id only_delete last_processed_group_id_input
               last_processed_project_index_input e cohort enable_ingestion]
          assms(1,2)
    unfolding assms(4) by auto
  from found obtain project last_processed_group_id last_processed_project_index
    where init: "?init = Inr (project, last_processed_group_id, last_processed_project_index)"
    by (cases ?init) auto
  let ?t0 = "[LogInfo ''backfill_seer_grouping_records'',
              Call_initialize_backfill current_project_id last_processed_group_id_input
                last_processed_project_index_input
                (Inr (project, last_processed_group_id, last_processed_project_index))]"
  have run: "run = backfill_batch env ?t0 current_project_id project last_processed_group_id
                     last_processed_project_index cohort enable_ingestion"
    using task_runs_batch [OF gate init] mode unfolding assms(4) by simp
  have "\<forall>x \<in> set ?t0. seer_response_of x = None"
    by simp
  from backfill_batch_seer_failure [OF assms(1) [unfolded run] assms(2,3) this]
  obtain before where
    "run = (?t0 @ before @ [e, LogInfo ''backfill_seer_grouping_records.seer_failed'',
                             CaptureException ''Seer failed during backfill''],
            Returned)"
    and "write_backs before = []" and "enqueued before = []"
    unfolding run by blast
  then show ?thesis
    using assms(2) by (auto simp add: is_Call_update_groups_def is_ApplyAsync_def)
qed

theorem seer_failure_stops_witness:
  "Call_send_group_and_stacktrace_to_seer [2] 0 10 timeout_response
     \<in> set (fst (backfill_seer_grouping_records_for_project failing_seer_env 10 None None None
                   False False))
   \<and> not_success timeout_response
   \<and> enqueued (fst (backfill_seer_grouping_records_for_project failing_seer_env 10 None None
                      None False False)) = []
   \<and> write_backs (fst (backfill_seer_grouping_records_for_project failing_seer_env 10 None None
                         None False False)) = []"
proof -
  have sent: "Call_send_group_and_stacktrace_to_seer [2] (0::nat) 10 timeout_response
     \<in> set (fst (backfill_seer_grouping_records_for_project failing_seer_env 10 None None None
                   False False))"
    by (simp add: backfill_seer_grouping_records_for_project_def backfill_batch_def
          send_to_seer_def failing_seer_env_def sample_env_def Let_def)
  have resp: "seer_response_of
                (Call_send_group_and_stacktrace_to_seer [2] (0::nat) 10 timeout_response
                   :: (nat, nat, nat, string) event)
              = Some timeout_response"
    by simp
  have failed: "not_success timeout_response"
    by (simp add: not_success_def timeout_response_def)
  from seer_failure_stops [OF sent resp failed refl] sent failed
  show ?thesis by simp
qed

subsubsection \<open>A project that no longer exists\<close>

text \<open>
  C2, as stated, fails: for the first project of a cohort walk started without a project
  index, a deleted project makes the invocation end in \<open>AssertionError\<close>, and nothing is
  enqueued.
\<close>

theorem missing_project_fails_job_counterexample:
  "\<not> (option_killswitch_enabled deleted_project_env \<or> killswitch_enabled deleted_project_env 10)
   \<and> initialize_backfill deleted_project_env 10 None None = Inl ProjectDoesNotExist
   \<and> snd (backfill_seer_grouping_records_for_project deleted_project_env 10 None
          (Some (CohortProjects [10, 20])) None False False) = Raised AssertionError
   \<and> enqueued (fst (backfill_seer_grouping_records_for_project deleted_project_env 10 None
          (Some (CohortProjects [10, 20])) None False False)) = []"
  by (simp add: backfill_seer_grouping_records_for_project_def deleted_project_env_def
        sample_env_def enqueued_def)

text \<open>
  C2, amended. Past the killswitch, when \<open>initialize_backfill\<close> raises
  \<open>Project.DoesNotExist\<close> and a \<open>last_processed_project_index_input\<close> was supplied, the
  invocation does not fail: it logs the missing project, calls \<open>call_next_backfill\<close> with a
  null group cursor, the input project index and the input \<open>cohort\<close>, \<open>only_delete\<close> and
  \<open>enable_ingestion\<close>, and returns.
\<close>

theorem missing_project_with_index_recovers:
  assumes "\<not> (option_killswitch_enabled env \<or> killswitch_enabled env current_project_id)"
    and "initialize_backfill env current_project_id last_processed_group_id_input
           (Some project_index) = Inl ProjectDoesNotExist"
  shows "backfill_seer_grouping_records_for_project env current_project_id
           last_processed_group_id_input cohort (Some project_index) only_delete
           enable_ingestion
         = ([LogInfo ''backfill_seer_grouping_records'',
             Call_initialize_backfill current_project_id last_processed_group_id_input
               (Some project_index) (Inl ProjectDoesNotExist),
             LogInfo ''backfill_seer_grouping_records.project_does_not_exist'']
            @ call_next_backfill env None current_project_id project_index cohort only_delete
                enable_ingestion,
            Returned)"
  using assms by (simp add: backfill_seer_grouping_records_for_project_def)

theorem missing_project_with_index_recovers_witness:
  "backfill_seer_grouping_records_for_project deleted_project_env 10 None
     (Some (CohortProjects [10, 20])) (Some 0) False False
   = ([LogInfo ''backfill_seer_grouping_records'',
       Call_initialize_backfill 10 None (Some 0) (Inl ProjectDoesNotExist),
       LogInfo ''backfill_seer_grouping_records.project_does_not_exist'',
       ApplyAsync 20 None (Some (CohortProjects [10, 20])) (Some 1) False False],
      Returned)"
  using missing_project_with_index_recovers
          [of deleted_project_env 10 None 0 "Some (CohortProjects [10, 20])" False False]
  by (simp add: deleted_project_env_def sample_env_def call_next_backfill_def
        get_project_for_batch_spec_def)

text \<open>
  C10. Past the killswitch, when \<open>initialize_backfill\<close> raises \<open>Project.DoesNotExist\<close> and
  \<open>last_processed_project_index_input\<close> is \<open>None\<close>, the invocation logs the missing project
  and the assertion fails: \<open>AssertionError\<close> leaves the task, and \<open>call_next_backfill\<close> is
  not called.
\<close>

theorem missing_project_without_index_asserts:
  assumes "\<not> (option_killswitch_enabled env \<or> killswitch_enabled env current_project_id)"
    and "initialize_backfill env current_project_id last_processed_group_id_input None
         = Inl ProjectDoesNotExist"
  shows "backfill_seer_grouping_records_for_project env current_project_id
           last_processed_group_id_input cohort None only_delete enable_ingestion
         = ([LogInfo ''backfill_seer_grouping_records'',
             Call_initialize_backfill current_project_id last_processed_group_id_input None
               (Inl ProjectDoesNotExist),
             LogInfo ''backfill_seer_grouping_records.project_does_not_exist''],
            Raised AssertionError)"
  using assms by (simp add: backfill_seer_grouping_records_for_project_def)

theorem missing_project_without_index_asserts_witness:
  "backfill_seer_grouping_records_for_project deleted_project_env 10 None None None False False
   = ([LogInfo ''backfill_seer_grouping_records'',
       Call_initialize_backfill 10 None None (Inl ProjectDoesNotExist),
       LogInfo ''backfill_seer_grouping_records.project_does_not_exist''],
      Raised AssertionError)"
  using missing_project_without_index_asserts [of deleted_project_env 10 None None False False]
  by (simp add: deleted_project_env_def sample_env_def)

subsubsection \<open>The killswitch\<close>

text \<open>
  C3. When the global killswitch option is enabled or the per-project killswitch predicate
  holds for \<open>current_project_id\<close>, the invocation logs one line and returns: it selects no
  batch, deletes nothing, calls no collaborator, writes nothing and enqueues nothing,
  whatever the other arguments are, \<open>only_delete\<close> included.
\<close>

theorem killswitch_is_noop:
  assumes "option_killswitch_enabled env \<or> killswitch_enabled env current_project_id"
  shows "backfill_seer_grouping_records_for_project env current_project_id
           last_processed_group_id_input cohort last_processed_project_index_input
           only_delete enable_ingestion
         = ([LogInfo ''backfill_seer_grouping_records.killswitch_enabled''], Returned)"
  using assms by (simp add: backfill_seer_grouping_records_for_project_def)

theorem killswitch_is_noop_witness:
  "option_killswitch_enabled killed_env \<and>
   backfill_seer_grouping_records_for_project killed_env 10 None (Some (CohortName ''cohort1''))
     None True False
   = ([LogInfo ''backfill_seer_grouping_records.killswitch_enabled''], Returned)"
  using killswitch_is_noop [of killed_env 10 None "Some (CohortName ''cohort1'')" None True False]
  by (simp add: killed_env_def sample_env_def)

subsubsection \<open>A batch without eligible groups\<close>




subsubsection \<open>The delete-only mode\<close>

text \<open>
  C5. Past the killswitch and the project lookup, an invocation with \<open>only_delete\<close> set
  deletes the grouping records of the project, selects no batch, fetches no events, calls
  no sender and writes nothing back; it then calls \<open>call_next_backfill\<close> with a null
  group cursor and returns. That call enqueues either nothing (the walk ends) or one task
  with a null group cursor, still in delete-only mode (the next project of the cohort).
\<close>

theorem only_delete_deletes_and_moves_on:
  assumes "\<not> (option_killswitch_enabled env \<or> killswitch_enabled env current_project_id)"
    and "initialize_backfill env current_project_id last_processed_group_id_input
           last_processed_project_index_input
         = Inr (project, last_processed_group_id, last_processed_project_index)"
    and "tr = fst (backfill_seer_grouping_records_for_project env current_project_id
                     last_processed_group_id_input cohort last_processed_project_index_input
                     True enable_ingestion)"
    and "next_project = call_next_backfill env None current_project_id
                          last_processed_project_index cohort True enable_ingestion"
  shows "backfill_seer_grouping_records_for_project env current_project_id
           last_processed_group_id_input cohort last_processed_project_index_input True
           enable_ingestion
         = ([LogInfo ''backfill_seer_grouping_records'',
             Call_initialize_backfill current_project_id last_processed_group_id_input
               last_processed_project_index_input
               (Inr (project, last_processed_group_id, last_processed_project_index)),
             Call_delete_seer_grouping_records current_project_id,
             LogInfo ''backfill_seer_grouping_records.deleted_all_records'']
            @ next_project,
            Returned)
       \<and> deletions tr = [Call_delete_seer_grouping_records current_project_id]
       \<and> batch_selections tr = [] \<and> event_fetches tr = []
       \<and> similarity_calls tr = [] \<and> write_backs tr = []
       \<and> enqueued tr = enqueued next_project
       \<and> (enqueued next_project = [] \<or>
          (\<exists>next_project_id next_project_index.
             enqueued next_project
             = [ApplyAsync next_project_id None cohort next_project_index True
                  enable_ingestion]))"
proof -
  have run: "backfill_seer_grouping_records_for_project env current_project_id
           last_processed_group_id_input cohort last_processed_project_index_input True
           enable_ingestion
         = ([LogInfo ''backfill_seer_grouping_records'',
             Call_initialize_backfill current_project_id last_processed_group_id_input
               last_processed_project_index_input
               (Inr (project, last_processed_group_id, last_processed_project_index)),
             Call_delete_seer_grouping_records current_project_id,
             LogInfo ''backfill_seer_grouping_records.deleted_all_records'']
            @ next_project,
            Returned)"
    using assms(1,2,4) by (simp add: backfill_seer_grouping_records_for_project_def)
  moreover have "deletions tr = [Call_delete_seer_grouping_records current_project_id]"
    and "batch_selections tr = []" and "event_fetches tr = []"
    and "similarity_calls tr = []" and "write_backs tr = []"
    and "enqueued tr = enqueued next_project"
    unfolding assms(3) run by (simp_all add: assms(4))
  moreover have "enqueued next_project = [] \<or>
          (\<exists>next_project_id next_project_index.
             enqueued next_project
             = [ApplyAsync next_project_id None cohort next_project_index True
                  enable_ingestion])"
    unfolding assms(4) by (rule enqueued_call_next_backfill_exhausted)
  ultimately show ?thesis by blast
qed

theorem only_delete_deletes_and_moves_on_witness:
  "deletions (fst (backfill_seer_grouping_records_for_project sample_env 10 None
                     (Some (CohortName ''cohort1'')) (Some 0) True False))
   = [Call_delete_seer_grouping_records 10]
   \<and> enqueued (fst (backfill_seer_grouping_records_for_project sample_env 10 None
                      (Some (CohortName ''cohort1'')) (Some 0) True False))
   = [ApplyAsync 20 None (Some (CohortName ''cohort1'')) (Some 1) True False]"
proof -
  have gate: "\<not> (option_killswitch_enabled sample_env \<or> killswitch_enabled sample_env 10)"
    by (simp add: sample_env_def)
  have init: "initialize_backfill sample_env 10 None (Some 0) = Inr (\<lparr>p_id = 10\<rparr>, None, 0)"
    by (simp add: sample_env_def)
  have "enqueued (call_next_backfill sample_env None 10 0 (Some (CohortName ''cohort1''))
                    True False)
        = [ApplyAsync 20 None (Some (CohortName ''cohort1'')) (Some 1) True False]"
    by (simp add: call_next_backfill_def sample_env_def get_project_for_batch_spec_def)
  with only_delete_deletes_and_moves_on
         [OF gate init refl refl, of "Some (CohortName ''cohort1'')" False]
  show ?thesis by simp
qed

subsubsection \<open>The continuation scheduler\<close>

text \<open>
  C6. \<open>call_next_backfill\<close> with a null group cursor and a cohort, when
  \<open>get_project_for_batch\<close> produces no next project id for
  \<open>last_processed_project_index\<close> and the cohort's project list, logs that the end of the
  project list is reached and enqueues nothing.
\<close>

theorem cohort_exhausted_terminates:
  assumes "\<not> not_cohort cohort"
    and "fst (get_project_for_batch env last_processed_project_index
                (resolve_cohort_projects env cohort)) = None"
  shows "call_next_backfill env None project_id last_processed_project_index cohort
           only_delete enable_ingestion
         = [LogInfo ''reached the end of the project list'']
       \<and> enqueued (call_next_backfill env None project_id last_processed_project_index cohort
                     only_delete enable_ingestion) = []"
  using assms
  by (auto simp add: call_next_backfill_def enqueued_def split: prod.splits option.splits)

theorem cohort_exhausted_terminates_witness:
  "\<not> not_cohort (Some (CohortName ''cohort1'')) \<and>
   resolve_cohort_projects sample_env (Some (CohortName ''cohort1'')) = [10, 20] \<and>
   call_next_backfill sample_env None 20 1 (Some (CohortName ''cohort1'')) False False
   = [LogInfo ''reached the end of the project list'']"
  using cohort_exhausted_terminates
          [of "Some (CohortName ''cohort1'')" sample_env 1 20 False False]
  by (simp add: sample_env_def get_project_for_batch_spec_def)

text \<open>
  C7. \<open>call_next_backfill\<close> with a null group cursor and a falsy cohort (\<open>None\<close>, the empty
  string or the empty list) logs that the backfill has finished and enqueues nothing. The
  effects are the same whatever the collaborators and \<open>last_processed_project_index\<close> are:
  neither the index nor the cohort map is consulted.
\<close>

theorem no_cohort_terminates:
  assumes "cohort = None \<or> cohort = Some (CohortName '''') \<or> cohort = Some (CohortProjects [])"
  shows "call_next_backfill env None project_id last_processed_project_index cohort
           only_delete enable_ingestion
         = [LogInfo ''backfill finished, no cohort'']
       \<and> enqueued (call_next_backfill env None project_id last_processed_project_index cohort
                     only_delete enable_ingestion) = []
       \<and> call_next_backfill env' None project_id last_processed_project_index' cohort
           only_delete enable_ingestion
         = call_next_backfill env None project_id last_processed_project_index cohort
             only_delete enable_ingestion"
  using assms by (auto simp add: call_next_backfill_def enqueued_def)

theorem no_cohort_terminates_witness:
  "call_next_backfill sample_env None 10 0 (Some (CohortProjects [])) False False
   = [LogInfo ''backfill finished, no cohort'']"
  using no_cohort_terminates
          [of "Some (CohortProjects [])" sample_env 10 0 False False killed_env 7]
  by simp

subsubsection \<open>The groups sent to the similarity service\<close>

text \<open>
  C8. When a batch reaches the similarity call, the invocation calls exactly one sender, the
  one the thread option selects, and the group ids it passes are the groups with a snuba row
  that are keys of the group-hashes dictionary, in the order of the snuba phase. Every group
  sent has an entry in that dictionary. The other groups are dropped without an exception:
  the invocation returns.
\<close>

theorem seer_receives_groups_with_events:
  assumes "\<not> (option_killswitch_enabled env \<or> killswitch_enabled env current_project_id)"
    and "initialize_backfill env current_project_id last_processed_group_id_input
           last_processed_project_index_input
         = Inr (project, last_processed_group_id, last_processed_project_index)"
    and "get_current_batch_groups_from_postgres env project last_processed_group_id
           (option_backfill_batch_size env) enable_ingestion
         = (groups, batch_end_id)"
    and "filter_snuba_results env (get_data_from_snuba env project groups) groups project
         = (filtered_snuba_results, has_snuba_row)"
    and "get_events_from_nodestore env project filtered_snuba_results has_snuba_row
         = (nodestore_results, group_hashes_dict)"
    and "groups \<noteq> []" and "has_snuba_row \<noteq> []" and "group_hashes_dict \<noteq> []"
    and "run = backfill_seer_grouping_records_for_project env current_project_id
                 last_processed_group_id_input cohort last_processed_project_index_input
                 False enable_ingestion"
    and "sent = filter (\<lambda>group_id. group_id \<in> set (map fst group_hashes_dict)) has_snuba_row"
  shows "similarity_calls (fst run)
         = [if option_backfill_seer_threads env > 1
            then Call_send_group_and_stacktrace_to_seer_multithreaded sent nodestore_results
                   (p_id project)
                   (send_group_and_stacktrace_to_seer_multithreaded env sent
                      nodestore_results (p_id project))
            else Call_send_group_and_stacktrace_to_seer sent nodestore_results (p_id project)
                   (send_group_and_stacktrace_to_seer env sent nodestore_results
                      (p_id project))]
       \<and> set sent = set has_snuba_row \<inter> set (map fst group_hashes_dict)
       \<and> (\<forall>group_id \<in> set sent. map_of group_hashes_dict group_id \<noteq> None)
       \<and> snd run = Returned"
proof -
  note run = assms(9) [unfolded task_runs_batch [OF assms(1,2)]]
  obtain seer_call seer_response where seer:
    "send_to_seer env sent nodestore_results (p_id project) = (seer_call, seer_response)"
    by (cases "send_to_seer env sent nodestore_results (p_id project)")
  have call: "seer_call
         = (if option_backfill_seer_threads env > 1
            then Call_send_group_and_stacktrace_to_seer_multithreaded sent nodestore_results
                   (p_id project)
                   (send_group_and_stacktrace_to_seer_multithreaded env sent
                      nodestore_results (p_id project))
            else Call_send_group_and_stacktrace_to_seer sent nodestore_results (p_id project)
                   (send_group_and_stacktrace_to_seer env sent nodestore_results
                      (p_id project)))"
    using seer by (auto simp add: send_to_seer_def Let_def split: if_splits)
  have resp: "seer_response_of seer_call \<noteq> None"
    unfolding call by simp
  have calls: "similarity_calls (fst run) = [seer_call]" and ret: "snd run = Returned"
    unfolding run
      backfill_batch_scored [OF assms(3) assms(6) assms(4) assms(7) assms(5) assms(8)
                               seer [unfolded assms(10)]]
    using resp by simp_all
  have sub: "set sent = set has_snuba_row \<inter> set (map fst group_hashes_dict)"
    unfolding assms(10) by auto
  have ent: "\<forall>group_id \<in> set sent. map_of group_hashes_dict group_id \<noteq> None"
    unfolding assms(10) by (auto simp add: map_of_eq_None_iff)
  show ?thesis
    using calls ret sub ent unfolding call by blast
qed

theorem seer_receives_groups_with_events_witness:
  "similarity_calls (fst (backfill_seer_grouping_records_for_project sample_env 10 None
                            None None False False))
   = [Call_send_group_and_stacktrace_to_seer [2] 0 10 sample_response]"
proof -
  have gate: "\<not> (option_killswitch_enabled sample_env \<or> killswitch_enabled sample_env 10)"
    by (simp add: sample_env_def)
  have init: "initialize_backfill sample_env 10 None None = Inr (\<lparr>p_id = 10\<rparr>, None, 0)"
    by (simp add: sample_env_def)
  have batch: "get_current_batch_groups_from_postgres sample_env \<lparr>p_id = 10\<rparr> None
                 (option_backfill_batch_size sample_env) False = ([1, 2, 3], Some 3)"
    by (simp add: sample_env_def)
  have snuba: "filter_snuba_results sample_env
                 (get_data_from_snuba sample_env \<lparr>p_id = 10\<rparr> [1, 2, 3]) [1, 2, 3]
                 \<lparr>p_id = 10\<rparr> = (0, [1, 2])"
    by (simp add: sample_env_def)
  have nodestore: "get_events_from_nodestore sample_env \<lparr>p_id = 10\<rparr> 0 [1, 2]
                   = (0, [(2, ''hash2'')])"
    by (simp add: sample_env_def)
  have ne: "[1, 2, 3] \<noteq> ([] :: int list)" "[1, 2] \<noteq> ([] :: int list)"
    "[(2, ''hash2'')] \<noteq> ([] :: (int \<times> string) list)"
    by simp_all
  from seer_receives_groups_with_events
         [OF gate init batch snuba nodestore ne refl refl, of None]
  show ?thesis by (simp add: sample_env_def)
qed

end
